theory Spec2Isabelle
  imports Complex_Main "HOL-Library.Monad_Syntax"
begin

section \<open>The half-edge mesh\<close>

text \<open>
  The mesh of \<^verbatim>\<open>student/meshedit.cpp\<close> is a pointer graph: every element (vertex, edge,
  face, half-edge) lives in a list owned by the mesh, and an element reference is an iterator
  into that list. The model is an explicit store: a reference is the number the arena gave
  the element, every field is a function from references to values, and the four lists and
  the four erase sets are kept as the mesh keeps them.

  Positions are \<^verbatim>\<open>Vec3\<close> values of three floats; the model keeps three reals. No statement
  below depends on rounding.
\<close>

type_synonym Vec3 = "real \<times> real \<times> real"

record Halfedge_Mesh =
  he_twin :: "nat \<Rightarrow> nat"
  he_next :: "nat \<Rightarrow> nat"
  he_vertex :: "nat \<Rightarrow> nat"
  he_edge :: "nat \<Rightarrow> nat"
  he_face :: "nat \<Rightarrow> nat"
  v_halfedge :: "nat \<Rightarrow> nat"
  v_pos :: "nat \<Rightarrow> Vec3"
  e_halfedge :: "nat \<Rightarrow> nat"
  f_halfedge :: "nat \<Rightarrow> nat"
  f_boundary :: "nat \<Rightarrow> bool"
  vertices :: "nat list"
  edges :: "nat list"
  faces :: "nat list"
  halfedges :: "nat list"
  verased :: "nat set"
  eerased :: "nat set"
  ferased :: "nat set"
  herased :: "nat set"
  next_id :: nat

subsection \<open>The arena\<close>

text \<open>
  Modelled from the spec: the allocation and erase primitives of the half-edge container
  (\<^verbatim>\<open>new_vertex\<close>, \<^verbatim>\<open>new_edge\<close>, \<^verbatim>\<open>new_face\<close>, \<^verbatim>\<open>new_halfedge\<close>, \<^verbatim>\<open>erase\<close>) are declared in
  \<^verbatim>\<open>geometry/halfedge.h\<close>, which is not among the sources. The spec describes them as an arena
  that hands out stable handles with monotonically assigned identifiers, appends the new
  element to the list of its kind, and erases softly: an erased element is only marked, and
  stays in its list until a compaction pass runs.
\<close>

definition new_vertex :: "Halfedge_Mesh \<Rightarrow> nat \<times> Halfedge_Mesh" where
  "new_vertex m = (next_id m, m\<lparr>vertices := vertices m @ [next_id m], next_id := Suc (next_id m)\<rparr>)"

definition new_edge :: "Halfedge_Mesh \<Rightarrow> nat \<times> Halfedge_Mesh" where
  "new_edge m = (next_id m, m\<lparr>edges := edges m @ [next_id m], next_id := Suc (next_id m)\<rparr>)"

definition new_face :: "Halfedge_Mesh \<Rightarrow> nat \<times> Halfedge_Mesh" where
  "new_face m = (next_id m, m\<lparr>faces := faces m @ [next_id m], next_id := Suc (next_id m)\<rparr>)"

definition new_halfedge :: "Halfedge_Mesh \<Rightarrow> nat \<times> Halfedge_Mesh" where
  "new_halfedge m =
     (next_id m, m\<lparr>halfedges := halfedges m @ [next_id m], next_id := Suc (next_id m)\<rparr>)"

definition erase_v :: "nat \<Rightarrow> Halfedge_Mesh \<Rightarrow> Halfedge_Mesh" where
  "erase_v v m = m\<lparr>verased := insert v (verased m)\<rparr>"

definition erase_e :: "nat \<Rightarrow> Halfedge_Mesh \<Rightarrow> Halfedge_Mesh" where
  "erase_e e m = m\<lparr>eerased := insert e (eerased m)\<rparr>"

definition erase_f :: "nat \<Rightarrow> Halfedge_Mesh \<Rightarrow> Halfedge_Mesh" where
  "erase_f f m = m\<lparr>ferased := insert f (ferased m)\<rparr>"

definition erase_h :: "nat \<Rightarrow> Halfedge_Mesh \<Rightarrow> Halfedge_Mesh" where
  "erase_h h m = m\<lparr>herased := insert h (herased m)\<rparr>"

text \<open>
  Modelled from the spec: the compaction pass (\<^verbatim>\<open>do_erase\<close>) physically removes every
  marked element from its list and clears the marks.
\<close>

definition do_erase :: "Halfedge_Mesh \<Rightarrow> Halfedge_Mesh" where
  "do_erase m =
     m\<lparr>vertices := filter (\<lambda>x. x \<notin> verased m) (vertices m),
       edges := filter (\<lambda>x. x \<notin> eerased m) (edges m),
       faces := filter (\<lambda>x. x \<notin> ferased m) (faces m),
       halfedges := filter (\<lambda>x. x \<notin> herased m) (halfedges m),
       verased := {}, eerased := {}, ferased := {}, herased := {}\<rparr>"

text \<open>Assignments through a reference, one per field.\<close>

definition set_twin :: "nat \<Rightarrow> nat \<Rightarrow> Halfedge_Mesh \<Rightarrow> Halfedge_Mesh" where
  "set_twin h x m = m\<lparr>he_twin := (he_twin m)(h := x)\<rparr>"

definition set_next :: "nat \<Rightarrow> nat \<Rightarrow> Halfedge_Mesh \<Rightarrow> Halfedge_Mesh" where
  "set_next h x m = m\<lparr>he_next := (he_next m)(h := x)\<rparr>"

definition set_vertex :: "nat \<Rightarrow> nat \<Rightarrow> Halfedge_Mesh \<Rightarrow> Halfedge_Mesh" where
  "set_vertex h x m = m\<lparr>he_vertex := (he_vertex m)(h := x)\<rparr>"

definition set_edge :: "nat \<Rightarrow> nat \<Rightarrow> Halfedge_Mesh \<Rightarrow> Halfedge_Mesh" where
  "set_edge h x m = m\<lparr>he_edge := (he_edge m)(h := x)\<rparr>"

definition set_face :: "nat \<Rightarrow> nat \<Rightarrow> Halfedge_Mesh \<Rightarrow> Halfedge_Mesh" where
  "set_face h x m = m\<lparr>he_face := (he_face m)(h := x)\<rparr>"

definition set_v_halfedge :: "nat \<Rightarrow> nat \<Rightarrow> Halfedge_Mesh \<Rightarrow> Halfedge_Mesh" where
  "set_v_halfedge v x m = m\<lparr>v_halfedge := (v_halfedge m)(v := x)\<rparr>"

definition set_v_pos :: "nat \<Rightarrow> Vec3 \<Rightarrow> Halfedge_Mesh \<Rightarrow> Halfedge_Mesh" where
  "set_v_pos v p m = m\<lparr>v_pos := (v_pos m)(v := p)\<rparr>"

definition set_e_halfedge :: "nat \<Rightarrow> nat \<Rightarrow> Halfedge_Mesh \<Rightarrow> Halfedge_Mesh" where
  "set_e_halfedge e x m = m\<lparr>e_halfedge := (e_halfedge m)(e := x)\<rparr>"

definition set_f_halfedge :: "nat \<Rightarrow> nat \<Rightarrow> Halfedge_Mesh \<Rightarrow> Halfedge_Mesh" where
  "set_f_halfedge f x m = m\<lparr>f_halfedge := (f_halfedge m)(f := x)\<rparr>"

subsection \<open>Element queries\<close>

text \<open>
  Modelled from the spec: \<^verbatim>\<open>Halfedge::is_boundary\<close>, \<^verbatim>\<open>Edge::on_boundary\<close>, \<^verbatim>\<open>Edge::center\<close> and
  \<^verbatim>\<open>Face::degree\<close> are members declared in the missing header. A half-edge is a boundary
  half-edge when its face is a boundary (virtual) face; an edge is on the boundary when one
  of its two half-edges is; the centre of an edge is the midpoint of its two end points; the
  degree of a face is the length of its half-edge cycle, counted by walking \<open>next\<close> from the
  face's half-edge until the walk is back there.
\<close>

definition is_boundary :: "Halfedge_Mesh \<Rightarrow> nat \<Rightarrow> bool" where
  "is_boundary m h = f_boundary m (he_face m h)"

definition on_boundary :: "Halfedge_Mesh \<Rightarrow> nat \<Rightarrow> bool" where
  "on_boundary m e =
     (is_boundary m (e_halfedge m e) \<or> is_boundary m (he_twin m (e_halfedge m e)))"

definition midpoint3 :: "Vec3 \<Rightarrow> Vec3 \<Rightarrow> Vec3" where
  "midpoint3 p q =
     (case p of (px, py, pz) \<Rightarrow> case q of (qx, qy, qz) \<Rightarrow>
        ((px + qx) / 2, (py + qy) / 2, (pz + qz) / 2))"

definition center :: "Halfedge_Mesh \<Rightarrow> nat \<Rightarrow> Vec3" where
  "center m e =
     midpoint3 (v_pos m (he_vertex m (e_halfedge m e)))
               (v_pos m (he_vertex m (he_twin m (e_halfedge m e))))"

partial_function (option) degree_loop :: "(nat \<Rightarrow> nat) \<Rightarrow> nat \<Rightarrow> nat \<Rightarrow> nat \<Rightarrow> nat option"
  where
  "degree_loop nxt start h d =
     (if nxt h \<noteq> start then degree_loop nxt start (nxt h) (Suc d) else Some (Suc d))"

definition degree :: "Halfedge_Mesh \<Rightarrow> nat \<Rightarrow> nat option" where
  "degree m f = degree_loop (he_next m) (f_halfedge m f) (f_halfedge m f) 0"

text \<open>Live elements: in the list of their kind and not marked erased.\<close>

definition live_vertices :: "Halfedge_Mesh \<Rightarrow> nat list" where
  "live_vertices m = filter (\<lambda>x. x \<notin> verased m) (vertices m)"

definition live_edges :: "Halfedge_Mesh \<Rightarrow> nat list" where
  "live_edges m = filter (\<lambda>x. x \<notin> eerased m) (edges m)"

definition live_faces :: "Halfedge_Mesh \<Rightarrow> nat list" where
  "live_faces m = filter (\<lambda>x. x \<notin> ferased m) (faces m)"

definition live_halfedges :: "Halfedge_Mesh \<Rightarrow> nat list" where
  "live_halfedges m = filter (\<lambda>x. x \<notin> herased m) (halfedges m)"

section \<open>Local operators\<close>

text \<open>
  Every local operator returns an optional reference; the model returns it together with
  the mesh after the call. Operators that walk the mesh in a \<^verbatim>\<open>while\<close> loop return an option
  of that pair, \<open>None\<close> standing for a walk that never ends.
\<close>

subsection \<open>The operators that only refuse\<close>

definition erase_vertex :: "Halfedge_Mesh \<Rightarrow> nat \<Rightarrow> nat option \<times> Halfedge_Mesh" where
  "erase_vertex m v = (None, m)"

definition erase_edge :: "Halfedge_Mesh \<Rightarrow> nat \<Rightarrow> nat option \<times> Halfedge_Mesh" where
  "erase_edge m e = (None, m)"

definition collapse_face :: "Halfedge_Mesh \<Rightarrow> nat \<Rightarrow> nat option \<times> Halfedge_Mesh" where
  "collapse_face m f = (None, m)"

definition bevel_vertex :: "Halfedge_Mesh \<Rightarrow> nat \<Rightarrow> nat option \<times> Halfedge_Mesh" where
  "bevel_vertex m v = (None, m)"

definition bevel_edge :: "Halfedge_Mesh \<Rightarrow> nat \<Rightarrow> nat option \<times> Halfedge_Mesh" where
  "bevel_edge m e = (None, m)"

definition bevel_face :: "Halfedge_Mesh \<Rightarrow> nat \<Rightarrow> nat option \<times> Halfedge_Mesh" where
  "bevel_face m f = (None, m)"

subsection \<open>Straight-line code\<close>

text \<open>
  A run of assignments is a list of mesh transformers, applied in the order written. An
  assignment whose right-hand side reads the mesh (\<^verbatim>\<open>he1->face()->halfedge() = he1\<close>) takes the
  mesh of the moment it runs.
\<close>

definition exec :: "('s \<Rightarrow> 's) list \<Rightarrow> 's \<Rightarrow> 's" where
  "exec ss m = fold (\<lambda>s. s) ss m"

text \<open>
  The search loops: \<^verbatim>\<open>while(h->next() != target) h = h->next();\<close> leaves \<open>h\<close> at the half-edge
  whose \<open>next\<close> is the target. It runs on the \<open>next\<close> field alone. \<open>None\<close> is the walk that
  never meets the target.
\<close>

partial_function (option) find_prev :: "(nat \<Rightarrow> nat) \<Rightarrow> nat \<Rightarrow> nat \<Rightarrow> nat option" where
  "find_prev nxt target h = (if nxt h \<noteq> target then find_prev nxt target (nxt h) else Some h)"

subsection \<open>Edge flip\<close>

definition flip_edge :: "Halfedge_Mesh \<Rightarrow> nat \<Rightarrow> (nat option \<times> Halfedge_Mesh) option" where
  "flip_edge m e =
    (if on_boundary m e then Some (None, m)
     else
      let he1 = e_halfedge m e;
          he2 = he_twin m he1;
          hn1 = he_next m he1;
          hn2 = he_next m he2;
          origin1 = he_vertex m hn1;
          origin2 = he_vertex m hn2;
          hnn1 = he_next m hn1;
          hnn2 = he_next m hn2;
          dest1 = he_vertex m hnn1;
          dest2 = he_vertex m hnn2
      in do {
        backhn1 \<leftarrow> find_prev (he_next m) he1 hnn1;
        backhn2 \<leftarrow> find_prev (he_next m) he2 hnn2;
        Some (Some e, exec [
          set_vertex he1 dest2,
          set_vertex he2 dest1,
          set_next he1 hnn1,
          set_next he2 hnn2,
          set_next hn1 he2,
          set_next hn2 he1,
          set_next backhn1 hn2,
          set_next backhn2 hn1,
          (\<lambda>m. set_f_halfedge (he_face m he1) he1 m),
          (\<lambda>m. set_f_halfedge (he_face m he2) he2 m),
          (\<lambda>m. set_face hn1 (he_face m he2) m),
          (\<lambda>m. set_face hn2 (he_face m he1) m)] m)
      })"

subsection \<open>Edge collapse\<close>

text \<open>
  The walk round an end point of the collapsing edge: every half-edge leaving that vertex,
  except the collapsing one, is given the new vertex. From a half-edge \<open>he\<close> the walk goes to
  the half-edge before \<open>he\<close> in its face (the inner loop) and takes its twin.
\<close>

partial_function (option) retarget ::
  "Halfedge_Mesh \<Rightarrow> nat \<Rightarrow> nat \<Rightarrow> nat \<Rightarrow> Halfedge_Mesh option" where
  "retarget m newVert stop he =
     (if he \<noteq> stop then
        do {
          p \<leftarrow> find_prev (he_next (set_vertex he newVert m)) he he;
          retarget (set_vertex he newVert m) newVert stop (he_twin (set_vertex he newVert m) p)
        }
      else Some m)"

text \<open>
  The two blocks that close the faces beside the collapsed edge, one per side. A triangle
  would be left with two sides: its two other half-edges go, and their twins are made twins
  of each other on one edge. A larger face only loses the collapsed half-edge from its cycle.
\<close>

definition collapse_side1 ::
  "nat \<Rightarrow> nat \<Rightarrow> nat \<Rightarrow> Halfedge_Mesh \<Rightarrow> Halfedge_Mesh option" where
  "collapse_side1 newVert he1 hnn1 m =
     do {
       d \<leftarrow> degree m (he_face m he1);
       Some
         (if d = 3 then
            let hn1 = he_next m he1;
                hn1_edge = he_edge m hn1;
                hnn1_edge = he_edge m hnn1;
                hn1_twin = he_twin m hn1;
                hnn1_twin = he_twin m hnn1
            in exec [
                 set_twin hn1_twin hnn1_twin,
                 set_twin hnn1_twin hn1_twin,
                 set_edge hnn1_twin hn1_edge,
                 set_e_halfedge hn1_edge hn1_twin,
                 (\<lambda>m. erase_f (he_face m he1) m),
                 erase_e hnn1_edge,
                 erase_h hn1,
                 erase_h hnn1,
                 (\<lambda>m. set_v_halfedge (he_vertex m hn1_twin) hn1_twin m),
                 set_v_halfedge newVert hnn1_twin] m
          else exec [
                 (\<lambda>m. set_next hnn1 (he_next m he1) m),
                 (\<lambda>m. set_f_halfedge (he_face m hnn1) hnn1 m)] m)
     }"

definition collapse_side2 :: "nat \<Rightarrow> nat \<Rightarrow> Halfedge_Mesh \<Rightarrow> Halfedge_Mesh option" where
  "collapse_side2 he2 hnn2 m =
     do {
       d \<leftarrow> degree m (he_face m he2);
       Some
         (if d = 3 then
            let hn2 = he_next m he2;
                hn2_edge = he_edge m hn2;
                hnn2_edge = he_edge m hnn2;
                hn2_twin = he_twin m hn2;
                hnn2_twin = he_twin m hnn2
            in exec [
                 set_twin hn2_twin hnn2_twin,
                 set_twin hnn2_twin hn2_twin,
                 set_edge hnn2_twin hn2_edge,
                 set_e_halfedge hn2_edge hn2_twin,
                 erase_e hnn2_edge,
                 erase_h hn2,
                 erase_h hnn2,
                 (\<lambda>m. erase_f (he_face m he2) m),
                 (\<lambda>m. set_v_halfedge (he_vertex m hn2_twin) hn2_twin m)] m
          else exec [
                 (\<lambda>m. set_next hnn2 (he_next m he2) m),
                 (\<lambda>m. set_f_halfedge (he_face m hnn2) hnn2 m)] m)
     }"

definition collapse_edge :: "Halfedge_Mesh \<Rightarrow> nat \<Rightarrow> (nat option \<times> Halfedge_Mesh) option" where
  "collapse_edge m e =
    (if length (edges m) < 2 then Some (None, m)
     else
      let he1 = e_halfedge m e;
          he2 = he_twin m he1;
          v1 = he_vertex m he1;
          v2 = he_vertex m he2;
          (newVert, m) = new_vertex m;
          m = exec [
            (\<lambda>m. set_v_pos newVert (center m e) m),
            (\<lambda>m. set_v_halfedge newVert (he_next m he1) m)] m
      in do {
        hnn1 \<leftarrow> find_prev (he_next m) he1 he1;
        m \<leftarrow> retarget m newVert he1 (he_twin m hnn1);
        hnn2 \<leftarrow> find_prev (he_next m) he2 he2;
        m \<leftarrow> retarget m newVert he2 (he_twin m hnn2);
        m \<leftarrow> collapse_side1 newVert he1 hnn1 m;
        m \<leftarrow> collapse_side2 he2 hnn2 m;
        Some (Some newVert, exec [erase_e e, erase_h he1, erase_h he2, erase_v v1, erase_v v2] m)
      })"


subsection \<open>Edge split\<close>

definition split_edge :: "Halfedge_Mesh \<Rightarrow> nat \<Rightarrow> nat option \<times> Halfedge_Mesh" where
  "split_edge m e =
    (let he1 = e_halfedge m e;
         he2 = he_twin m he1
     in if is_boundary m he1 \<or> is_boundary m he2 then (None, m)
     else
      let hn1 = he_next m he1;
          hn2 = he_next m he2;
          hnn1 = he_next m hn1;
          hnn2 = he_next m hn2;
          A = he_vertex m he2;
          B = he_vertex m he1;
          C = he_vertex m hnn1;
          D = he_vertex m hnn2;
          oldFace = he_face m he1;
          oldFace2 = he_face m he2;
          (midVert, m) = new_vertex m;
          (edgeA, m) = new_edge m;
          (edgeB, m) = new_edge m;
          (edgeC, m) = new_edge m;
          (edgeD, m) = new_edge m;
          (nhn1, m) = new_halfedge m;
          (nhn2, m) = new_halfedge m;
          (nhn3, m) = new_halfedge m;
          (nhn4, m) = new_halfedge m;
          (nhe2, m) = new_halfedge m;
          (nhe4, m) = new_halfedge m;
          (nface1, m) = new_face m;
          (nface2, m) = new_face m;
          (nface3, m) = new_face m;
          (nface4, m) = new_face m
      in (Some midVert, exec [
          (\<lambda>m. set_v_pos midVert (center m e) m),
          set_v_halfedge midVert nhn1,
          set_e_halfedge edgeA he2,
          set_e_halfedge edgeB he1,
          set_e_halfedge edgeC nhn2,
          set_e_halfedge edgeD nhn1,
          set_f_halfedge nface1 he2,
          set_f_halfedge nface2 nhe2,
          set_f_halfedge nface3 he1,
          set_f_halfedge nface4 nhe4,
          set_next he2 nhn1,
          set_edge he2 edgeA,
          set_twin he2 nhe2,
          set_vertex he2 A,
          set_face he2 nface1,
          set_next nhn1 hnn2,
          set_edge nhn1 edgeD,
          set_twin nhn1 nhn4,
          set_vertex nhn1 midVert,
          set_face nhn1 nface1,
          set_next hnn2 he2,
          (\<lambda>m. set_edge hnn2 (he_edge m hnn2) m),
          (\<lambda>m. set_twin hnn2 (he_twin m hnn2) m),
          set_vertex hnn2 D,
          set_face hnn2 nface1,
          set_next nhe2 hn1,
          set_edge nhe2 edgeA,
          set_twin nhe2 he2,
          set_vertex nhe2 midVert,
          set_face nhe2 nface2,
          set_next nhn2 nhe2,
          set_edge nhn2 edgeC,
          set_twin nhn2 nhn3,
          set_vertex nhn2 C,
          set_face nhn2 nface2,
          set_next hn1 nhn2,
          (\<lambda>m. set_edge hn1 (he_edge m hn1) m),
          (\<lambda>m. set_twin hn1 (he_twin m hn1) m),
          set_vertex hn1 A,
          set_face hn1 nface2,
          set_next he1 nhn3,
          set_edge he1 edgeB,
          set_twin he1 nhe4,
          set_vertex he1 B,
          set_face he1 nface3,
          set_next nhn3 hnn1,
          set_edge nhn3 edgeC,
          set_twin nhn3 nhn2,
          set_vertex nhn3 midVert,
          set_face nhn3 nface3,
          set_next hnn1 he1,
          (\<lambda>m. set_edge hnn1 (he_edge m hnn1) m),
          (\<lambda>m. set_twin hnn1 (he_twin m hnn1) m),
          set_vertex hnn1 C,
          set_face hnn1 nface3,
          set_next nhe4 hn2,
          set_edge nhe4 edgeB,
          set_twin nhe4 he1,
          set_vertex nhe4 midVert,
          set_face nhe4 nface4,
          set_next nhn4 nhe4,
          set_edge nhn4 edgeD,
          set_twin nhn4 nhn1,
          set_vertex nhn4 D,
          set_face nhn4 nface4,
          set_next hn2 nhn4,
          (\<lambda>m. set_edge hn2 (he_edge m hn2) m),
          (\<lambda>m. set_twin hn2 (he_twin m hn2) m),
          set_vertex hn2 B,
          set_face hn2 nface4,
          erase_e e,
          erase_f oldFace,
          erase_f oldFace2] m))"


section \<open>Whole-mesh operators\<close>

subsection \<open>Isotropic remeshing\<close>

definition isotropic_remesh :: "Halfedge_Mesh \<Rightarrow> bool \<times> Halfedge_Mesh" where
  "isotropic_remesh m = (False, m)"

subsection \<open>Edge records and the priority queue\<close>

text \<open>
  A value of the C++ type \<^verbatim>\<open>float\<close>, as far as a comparison sees it: not a number, one of the two
  infinities, or a number. \<^verbatim>\<open>a != b\<close> is true as soon as one side is not a number, and
  \<^verbatim>\<open>a < b\<close> is false then. Negation is exact.
\<close>

datatype float_value = NaN | Minus_Infinity | Number real | Plus_Infinity

fun float_less :: "float_value \<Rightarrow> float_value \<Rightarrow> bool" where
  "float_less (Number a) (Number b) = (a < b)"
| "float_less Minus_Infinity (Number b) = True"
| "float_less Minus_Infinity Plus_Infinity = True"
| "float_less (Number a) Plus_Infinity = True"
| "float_less a b = False"

definition float_ne :: "float_value \<Rightarrow> float_value \<Rightarrow> bool" where
  "float_ne a b = (a = NaN \<or> b = NaN \<or> a \<noteq> b)"

fun float_neg :: "float_value \<Rightarrow> float_value" where
  "float_neg NaN = NaN"
| "float_neg Minus_Infinity = Plus_Infinity"
| "float_neg (Number a) = Number (- a)"
| "float_neg Plus_Infinity = Minus_Infinity"

type_synonym FVec3 = "float_value \<times> float_value \<times> float_value"

type_synonym FVec4 = "float_value \<times> float_value \<times> float_value \<times> float_value"

definition fvec3 :: "Vec3 \<Rightarrow> FVec3" where
  "fvec3 p = (case p of (px, py, pz) \<Rightarrow> (Number px, Number py, Number pz))"

text \<open>
  The linear algebra of the simplifier (\<^verbatim>\<open>Mat4\<close>, \<^verbatim>\<open>Vec3\<close>, \<^verbatim>\<open>Vec4\<close>, \<^verbatim>\<open>Face::normal\<close>) is declared
  in headers that are not among the sources, and it is floating-point arithmetic. The model
  takes it as a parameter: a quadric is a value of some type \<open>'q\<close>, and the operations the
  code calls on it are the fields of a record. What they return are float values, a value
  that is not a number included.
\<close>

record 'q mathlib =
  mat_default :: 'q
  mat_add :: "'q \<Rightarrow> 'q \<Rightarrow> 'q"
  mat_outer :: "FVec4 \<Rightarrow> FVec4 \<Rightarrow> 'q"
  mat_entry :: "'q \<Rightarrow> nat \<Rightarrow> nat \<Rightarrow> float_value"
  mat_inverse :: "'q \<Rightarrow> 'q"
  mat_apply :: "'q \<Rightarrow> FVec3 \<Rightarrow> FVec3"
  vec_dot :: "FVec3 \<Rightarrow> FVec3 \<Rightarrow> float_value"
  vec_neg :: "FVec3 \<Rightarrow> FVec3"
  face_normal :: "Halfedge_Mesh \<Rightarrow> nat \<Rightarrow> FVec3"

record Edge_Record =
  edge :: nat
  optimal :: FVec3
  cost :: float_value

text \<open>
  \<^verbatim>\<open>std::unordered_map::operator[]\<close> on a missing key yields a default-constructed value. (It
  also stores it; the stored default reads back as the same default, so the model does not
  store it.)
\<close>

definition quadric_at :: "'q mathlib \<Rightarrow> (nat \<rightharpoonup> 'q) \<Rightarrow> nat \<Rightarrow> 'q" where
  "quadric_at L qs k = (case qs k of None \<Rightarrow> mat_default L | Some q \<Rightarrow> q)"

definition make_Edge_Record ::
  "'q mathlib \<Rightarrow> Halfedge_Mesh \<Rightarrow> (nat \<rightharpoonup> 'q) \<Rightarrow> nat \<Rightarrow> Edge_Record" where
  "make_Edge_Record L m vertex_quadrics e =
     (let blah = he_vertex m (e_halfedge m e);
          quad1 = quadric_at L vertex_quadrics blah;
          quad2 = quadric_at L vertex_quadrics (he_vertex m (he_twin m (e_halfedge m e)));
          Q = mat_add L quad1 quad2;
          b = vec_neg L (mat_entry L Q 3 0, mat_entry L Q 3 1, mat_entry L Q 3 2);
          opt = mat_apply L (mat_inverse L Q) b
      in \<lparr>edge = e, optimal = opt, cost = vec_dot L opt (mat_apply L Q opt)\<rparr>)"

text \<open>
  The comparison of two records: by cost, and for equal costs by the addresses of the two
  edge elements (\<^verbatim>\<open>&*e1 < &*e2\<close>). Where the allocator placed an edge is not part of the mesh;
  the placement is the parameter \<open>addr\<close>.
\<close>

definition Edge_Record_less :: "(nat \<Rightarrow> nat) \<Rightarrow> Edge_Record \<Rightarrow> Edge_Record \<Rightarrow> bool" where
  "Edge_Record_less addr r1 r2 =
     (if float_ne (cost r1) (cost r2) then float_less (cost r1) (cost r2)
      else addr (edge r1) < addr (edge r2))"

text \<open>
  \<^verbatim>\<open>PQueue\<close> wraps a \<^verbatim>\<open>std::set\<close>: the items in increasing order, no two of them equivalent
  (neither less than the other). The list below is the set read from \<^verbatim>\<open>begin()\<close> on, and
  \<^verbatim>\<open>insert\<close> puts the item before the first item that is greater, or leaves the set as it is
  when it meets an equivalent item. This is what the search tree of the library does as long
  as the comparison is a strict weak order on the items of the set, that is as long as no
  cost is not a number; with such a cost the library promises nothing.
\<close>

definition pq_equiv :: "(nat \<Rightarrow> nat) \<Rightarrow> Edge_Record \<Rightarrow> Edge_Record \<Rightarrow> bool" where
  "pq_equiv addr r1 r2 = (\<not> Edge_Record_less addr r1 r2 \<and> \<not> Edge_Record_less addr r2 r1)"

fun pq_insert :: "(nat \<Rightarrow> nat) \<Rightarrow> Edge_Record \<Rightarrow> Edge_Record list \<Rightarrow> Edge_Record list" where
  "pq_insert addr item [] = [item]"
| "pq_insert addr item (x # xs) =
     (if Edge_Record_less addr item x then item # x # xs
      else if Edge_Record_less addr x item then x # pq_insert addr item xs
      else x # xs)"

definition pq_remove :: "(nat \<Rightarrow> nat) \<Rightarrow> Edge_Record \<Rightarrow> Edge_Record list \<Rightarrow> Edge_Record list"
  where
  "pq_remove addr item q = filter (\<lambda>x. \<not> pq_equiv addr x item) q"

subsection \<open>Quadric simplification\<close>

text \<open>
  The loop \<^verbatim>\<open>do { body; he = he->twin()->next(); } while(he != start);\<close> round a vertex, with
  the loop body as a function on whatever the loop changes.
\<close>

partial_function (option) fan_loop ::
  "(nat \<Rightarrow> 's \<Rightarrow> 's) \<Rightarrow> (nat \<Rightarrow> nat) \<Rightarrow> nat \<Rightarrow> nat \<Rightarrow> 's \<Rightarrow> 's option" where
  "fan_loop body step start he s =
     (if step he \<noteq> start then fan_loop body step start (step he) (body he s)
      else Some (body he s))"

definition fan :: "Halfedge_Mesh \<Rightarrow> (nat \<Rightarrow> 's \<Rightarrow> 's) \<Rightarrow> nat \<Rightarrow> 's \<Rightarrow> 's option" where
  "fan m body v s =
     fan_loop body (\<lambda>he. he_next m (he_twin m he)) (v_halfedge m v) (v_halfedge m v) s"

definition face_quadric :: "'q mathlib \<Rightarrow> Halfedge_Mesh \<Rightarrow> nat \<Rightarrow> 'q" where
  "face_quadric L m f =
     (let normal = face_normal L m f;
          point = fvec3 (v_pos m (he_vertex m (f_halfedge m f)));
          d = float_neg (vec_dot L normal point)
      in case point of (px, py, pz) \<Rightarrow> case normal of (nx, ny, nz) \<Rightarrow>
           mat_outer L (px, py, pz, Number 1) (nx, ny, nz, d))"

fun vertex_quadrics_loop ::
  "'q mathlib \<Rightarrow> Halfedge_Mesh \<Rightarrow> (nat \<rightharpoonup> 'q) \<Rightarrow> nat list \<Rightarrow> (nat \<rightharpoonup> 'q) \<Rightarrow> (nat \<rightharpoonup> 'q) option"
  where
  "vertex_quadrics_loop L m face_quadrics [] vertex_quadrics = Some vertex_quadrics"
| "vertex_quadrics_loop L m face_quadrics (v # vs) vertex_quadrics =
     do {
       quadric \<leftarrow> fan m (\<lambda>he quadric. mat_add L quadric (quadric_at L face_quadrics (he_face m he)))
                    v (mat_default L);
       vertex_quadrics_loop L m face_quadrics vs (vertex_quadrics(v \<mapsto> quadric))
     }"

text \<open>
  What the decimation loop carries from one round to the next: the mesh, the quadrics of
  the vertices, the record of every edge and the queue.
\<close>

record 'q simplify_state =
  mesh :: Halfedge_Mesh
  vertex_quadrics :: "nat \<rightharpoonup> 'q"
  edge_records :: "nat \<rightharpoonup> Edge_Record"
  edge_queue :: "Edge_Record list"

text \<open>
  Modelled from the spec: \<^verbatim>\<open>collapse_edge_erase\<close> is the erase-committing edge collapse, the
  collapse followed by the compaction pass. It is defined outside the sources.
\<close>

definition collapse_edge_erase ::
  "Halfedge_Mesh \<Rightarrow> nat \<Rightarrow> (nat option \<times> Halfedge_Mesh) option" where
  "collapse_edge_erase m e = map_option (\<lambda>(r, m'). (r, do_erase m')) (collapse_edge m e)"

text \<open>
  Two steps of the loop have no defined behaviour when their operand is missing: \<^verbatim>\<open>top()\<close> of
  an empty queue and \<^verbatim>\<open>value()\<close> of an empty optional. The model stops with a fault there.
  \<^verbatim>\<open>edge_records[k]\<close> for a key that is not stored yields a record whose fields were never
  written; the model takes that record as the parameter \<open>junk\<close>.
\<close>

datatype fault = Empty_queue | Bad_optional_access

definition record_at :: "Edge_Record \<Rightarrow> (nat \<rightharpoonup> Edge_Record) \<Rightarrow> nat \<Rightarrow> Edge_Record" where
  "record_at junk rs k = (case rs k of None \<Rightarrow> junk | Some r \<Rightarrow> r)"

definition drop_record ::
  "(nat \<Rightarrow> nat) \<Rightarrow> Edge_Record \<Rightarrow> Halfedge_Mesh \<Rightarrow> nat \<Rightarrow>
   (nat \<rightharpoonup> Edge_Record) \<times> Edge_Record list \<Rightarrow> (nat \<rightharpoonup> Edge_Record) \<times> Edge_Record list"
  where
  "drop_record addr junk m he rq =
     (case rq of (rs, q) \<Rightarrow>
        ((rs)(he_edge m he := None), pq_remove addr (record_at junk rs (he_edge m he)) q))"

definition add_record ::
  "'q mathlib \<Rightarrow> (nat \<Rightarrow> nat) \<Rightarrow> Halfedge_Mesh \<Rightarrow> (nat \<rightharpoonup> 'q) \<Rightarrow> nat \<Rightarrow>
   (nat \<rightharpoonup> Edge_Record) \<times> Edge_Record list \<Rightarrow> (nat \<rightharpoonup> Edge_Record) \<times> Edge_Record list"
  where
  "add_record L addr m vq he rq =
     (case rq of (rs, q) \<Rightarrow>
        (let er = make_Edge_Record L m vq (he_edge m he)
         in ((rs)(he_edge m he \<mapsto> er), pq_insert addr er q)))"

text \<open>One round of the loop: a fault, or the state for the next round.\<close>

definition simplify_round ::
  "'q mathlib \<Rightarrow> (nat \<Rightarrow> nat) \<Rightarrow> Edge_Record \<Rightarrow> 'q simplify_state \<Rightarrow>
   (fault + 'q simplify_state) option" where
  "simplify_round L addr junk s =
     (case edge_queue s of
        [] \<Rightarrow> Some (Inl Empty_queue)
      | best # rest \<Rightarrow>
          let m = mesh s;
              e = edge best;
              v1 = he_vertex m (e_halfedge m e);
              v2 = he_vertex m (he_twin m (e_halfedge m e));
              Q = mat_add L (quadric_at L (vertex_quadrics s) v1)
                            (quadric_at L (vertex_quadrics s) v2);
              vq = (vertex_quadrics s)(v1 := None, v2 := None)
          in do {
            rq \<leftarrow> fan m (drop_record addr junk m) v1 (edge_records s, rest);
            rq \<leftarrow> fan m (drop_record addr junk m) v2 rq;
            collapsed \<leftarrow> collapse_edge_erase m e;
            case collapsed of
              (None, m') \<Rightarrow> Some (Inl Bad_optional_access)
            | (Some newVert, m') \<Rightarrow>
                do {
                  rq \<leftarrow> fan m' (add_record L addr m' (vq(newVert \<mapsto> Q))) newVert rq;
                  Some (Inr \<lparr>mesh = m', vertex_quadrics = vq(newVert \<mapsto> Q),
                              edge_records = fst rq, edge_queue = snd rq\<rparr>)
                }
          })"

partial_function (option) simplify_loop ::
  "'q mathlib \<Rightarrow> (nat \<Rightarrow> nat) \<Rightarrow> Edge_Record \<Rightarrow> nat \<Rightarrow> 'q simplify_state \<Rightarrow>
   (fault + 'q simplify_state) option" where
  "simplify_loop L addr junk target s =
     (if length (edges (mesh s)) > target then
        do {
          r \<leftarrow> simplify_round L addr junk s;
          case r of
            Inl flt \<Rightarrow> Some (Inl flt)
          | Inr s' \<Rightarrow> simplify_loop L addr junk target s'
        }
      else Some (Inr s))"

text \<open>
  \<^verbatim>\<open>int target = edges.size() * 0.75;\<close> multiplies in double precision and truncates. For
  every list length that fits a machine this is three quarters of the length, rounded down.
\<close>

definition simplify ::
  "'q mathlib \<Rightarrow> (nat \<Rightarrow> nat) \<Rightarrow> Edge_Record \<Rightarrow> Halfedge_Mesh \<Rightarrow>
   (fault + bool \<times> Halfedge_Mesh) option" where
  "simplify L addr junk m =
     (if length (edges m) < 3 then Some (Inr (False, m))
      else
        let face_quadrics = fold (\<lambda>f fq. fq(f \<mapsto> face_quadric L m f)) (faces m) Map.empty
        in do {
          vq \<leftarrow> vertex_quadrics_loop L m face_quadrics (vertices m) Map.empty;
          let rq = fold (\<lambda>e (rs, q). (rs(e \<mapsto> make_Edge_Record L m vq e),
                                      pq_insert addr (make_Edge_Record L m vq e) q))
                     (edges m) (Map.empty, []);
          let target = (length (edges m) * 3) div 4;
          r \<leftarrow> simplify_loop L addr junk target
                 \<lparr>mesh = m, vertex_quadrics = vq, edge_records = fst rq, edge_queue = snd rq\<rparr>;
          case r of
            Inl flt \<Rightarrow> Some (Inl flt)
          | Inr s \<Rightarrow> Some (Inr (True, mesh s))
        })"

section \<open>Operator calls\<close>

text \<open>
  The spec's \<^verbatim>\<open>flip_edge(flip_edge(e))\<close>: a flip, and when it hands back an edge, a flip of that
  edge in the mesh the first flip left.
\<close>

definition flip_twice :: "Halfedge_Mesh \<Rightarrow> nat \<Rightarrow> (nat option \<times> Halfedge_Mesh) option" where
  "flip_twice m e =
     (case flip_edge m e of
        None \<Rightarrow> None
      | Some (None, m1) \<Rightarrow> Some (None, m1)
      | Some (Some e1, m1) \<Rightarrow> flip_edge m1 e1)"

text \<open>
  One call of an operator of the editing interface, and what it hands back: an optional
  reference for a local operator, a success flag for a whole-mesh one. A call refuses when
  the optional is empty or the flag is false.
\<close>

datatype operator_call =
    Erase_vertex nat | Erase_edge nat | Collapse_edge nat | Collapse_face nat
  | Flip_edge nat | Split_edge nat | Bevel_vertex nat | Bevel_edge nat | Bevel_face nat
  | Isotropic_remesh | Simplify

datatype outcome = Handle "nat option" | Flag bool

fun refused :: "outcome \<Rightarrow> bool" where
  "refused (Handle r) = (r = None)"
| "refused (Flag b) = (\<not> b)"

definition local_result :: "nat option \<times> Halfedge_Mesh \<Rightarrow> fault + outcome \<times> Halfedge_Mesh" where
  "local_result r = Inr (Handle (fst r), snd r)"

fun call ::
  "'q mathlib \<Rightarrow> (nat \<Rightarrow> nat) \<Rightarrow> Edge_Record \<Rightarrow> Halfedge_Mesh \<Rightarrow> operator_call \<Rightarrow>
   (fault + outcome \<times> Halfedge_Mesh) option" where
  "call L addr junk m (Erase_vertex v) = Some (local_result (erase_vertex m v))"
| "call L addr junk m (Erase_edge e) = Some (local_result (erase_edge m e))"
| "call L addr junk m (Collapse_edge e) = map_option local_result (collapse_edge m e)"
| "call L addr junk m (Collapse_face f) = Some (local_result (collapse_face m f))"
| "call L addr junk m (Flip_edge e) = map_option local_result (flip_edge m e)"
| "call L addr junk m (Split_edge e) = Some (local_result (split_edge m e))"
| "call L addr junk m (Bevel_vertex v) = Some (local_result (bevel_vertex m v))"
| "call L addr junk m (Bevel_edge e) = Some (local_result (bevel_edge m e))"
| "call L addr junk m (Bevel_face f) = Some (local_result (bevel_face m f))"
| "call L addr junk m Isotropic_remesh =
     Some (Inr (Flag (fst (isotropic_remesh m)), snd (isotropic_remesh m)))"
| "call L addr junk m Simplify =
     map_option (map_sum (\<lambda>flt. flt) (\<lambda>r. (Flag (fst r), snd r))) (simplify L addr junk m)"

section \<open>The half-edge invariants\<close>

text \<open>
  The invariants of the data model, as checks over the live elements. \<open>cycle_from f s h n\<close>
  lists the elements the walk \<open>h, f h, f (f h), \<dots>\<close> passes until its next step is \<open>s\<close>, within
  \<open>n\<close> steps; a walk over half-edges is never longer than the list of half-edges.
\<close>

fun cycle_from :: "(nat \<Rightarrow> nat) \<Rightarrow> nat \<Rightarrow> nat \<Rightarrow> nat \<Rightarrow> nat list option" where
  "cycle_from f start h 0 = None"
| "cycle_from f start h (Suc n) =
     (if f h = start then Some [h] else map_option ((#) h) (cycle_from f start (f h) n))"

definition live_v :: "Halfedge_Mesh \<Rightarrow> nat \<Rightarrow> bool" where
  "live_v m v = (v \<in> set (vertices m) \<and> v \<notin> verased m)"

definition live_e :: "Halfedge_Mesh \<Rightarrow> nat \<Rightarrow> bool" where
  "live_e m e = (e \<in> set (edges m) \<and> e \<notin> eerased m)"

definition live_f :: "Halfedge_Mesh \<Rightarrow> nat \<Rightarrow> bool" where
  "live_f m f = (f \<in> set (faces m) \<and> f \<notin> ferased m)"

definition live_h :: "Halfedge_Mesh \<Rightarrow> nat \<Rightarrow> bool" where
  "live_h m h = (h \<in> set (halfedges m) \<and> h \<notin> herased m)"

definition arena_ok :: "Halfedge_Mesh \<Rightarrow> bool" where
  "arena_ok m =
     (distinct (vertices m) \<and> distinct (edges m) \<and> distinct (faces m) \<and> distinct (halfedges m) \<and>
      list_all (\<lambda>x. x < next_id m) (vertices m) \<and> list_all (\<lambda>x. x < next_id m) (edges m) \<and>
      list_all (\<lambda>x. x < next_id m) (faces m) \<and> list_all (\<lambda>x. x < next_id m) (halfedges m) \<and>
      verased m \<subseteq> set (vertices m) \<and> eerased m \<subseteq> set (edges m) \<and>
      ferased m \<subseteq> set (faces m) \<and> herased m \<subseteq> set (halfedges m))"

definition twin_ok :: "Halfedge_Mesh \<Rightarrow> bool" where
  "twin_ok m =
     list_all (\<lambda>h. live_h m (he_twin m h) \<and> he_twin m (he_twin m h) = h \<and> he_twin m h \<noteq> h)
       (live_halfedges m)"

definition face_cycle_ok :: "Halfedge_Mesh \<Rightarrow> nat \<Rightarrow> bool" where
  "face_cycle_ok m h =
     (case cycle_from (he_next m) h h (length (halfedges m)) of
        None \<Rightarrow> False
      | Some c \<Rightarrow> degree m (he_face m h) = Some (length c) \<and>
                  list_all (\<lambda>x. he_face m x = he_face m h) c)"

definition faces_ok :: "Halfedge_Mesh \<Rightarrow> bool" where
  "faces_ok m =
     (list_all (\<lambda>h. live_h m (he_next m h) \<and> live_f m (he_face m h) \<and> face_cycle_ok m h)
        (live_halfedges m) \<and>
      list_all (\<lambda>f. live_h m (f_halfedge m f) \<and> he_face m (f_halfedge m f) = f) (live_faces m))"

definition edges_ok :: "Halfedge_Mesh \<Rightarrow> bool" where
  "edges_ok m =
     (list_all (\<lambda>e. live_h m (e_halfedge m e) \<and> he_edge m (e_halfedge m e) = e) (live_edges m) \<and>
      list_all (\<lambda>h. live_e m (he_edge m h) \<and> he_edge m (he_twin m h) = he_edge m h \<and>
                    (e_halfedge m (he_edge m h) = h \<or> e_halfedge m (he_edge m h) = he_twin m h))
        (live_halfedges m))"

definition vertex_fan_ok :: "Halfedge_Mesh \<Rightarrow> nat \<Rightarrow> bool" where
  "vertex_fan_ok m v =
     (case cycle_from (\<lambda>h. he_next m (he_twin m h)) (v_halfedge m v) (v_halfedge m v)
             (length (halfedges m)) of
        None \<Rightarrow> False
      | Some c \<Rightarrow> list_all (\<lambda>h. he_vertex m h = v) c \<and>
                  list_all (\<lambda>h. h \<in> set c) (filter (\<lambda>h. he_vertex m h = v) (live_halfedges m)))"

definition vertices_ok :: "Halfedge_Mesh \<Rightarrow> bool" where
  "vertices_ok m =
     (list_all (\<lambda>v. live_h m (v_halfedge m v) \<and> he_vertex m (v_halfedge m v) = v \<and>
                    vertex_fan_ok m v) (live_vertices m) \<and>
      list_all (\<lambda>h. live_v m (he_vertex m h)) (live_halfedges m))"

definition valid :: "Halfedge_Mesh \<Rightarrow> bool" where
  "valid m = (arena_ok m \<and> twin_ok m \<and> faces_ok m \<and> edges_ok m \<and> vertices_ok m)"


text \<open>
  A proper triangle: a face cycle of three half-edges whose three corners differ. A triangle
  mesh has no other face, boundary loops apart.
\<close>

definition proper_triangle :: "Halfedge_Mesh \<Rightarrow> nat \<Rightarrow> bool" where
  "proper_triangle m h =
     (he_next m (he_next m (he_next m h)) = h \<and>
      distinct [he_vertex m h, he_vertex m (he_next m h), he_vertex m (he_next m (he_next m h))])"

definition triangle_mesh :: "Halfedge_Mesh \<Rightarrow> bool" where
  "triangle_mesh m = list_all (\<lambda>h. is_boundary m h \<or> proper_triangle m h) (live_halfedges m)"



text \<open>
  What a manifold has at an edge: two different end points, two different faces beside it,
  and for each of the two faces that is a triangle (by its degree) three different corners.
  \<open>triangles_beside\<close> counts the faces beside the edge that are triangles.
\<close>

definition manifold_at :: "Halfedge_Mesh \<Rightarrow> nat \<Rightarrow> bool" where
  "manifold_at m e =
     (he_vertex m (e_halfedge m e) \<noteq> he_vertex m (he_twin m (e_halfedge m e)) \<and>
      he_face m (e_halfedge m e) \<noteq> he_face m (he_twin m (e_halfedge m e)) \<and>
      list_all (\<lambda>h. degree m (he_face m h) = Some 3 \<longrightarrow> proper_triangle m h)
        [e_halfedge m e, he_twin m (e_halfedge m e)])"

definition triangles_beside :: "Halfedge_Mesh \<Rightarrow> nat \<Rightarrow> nat" where
  "triangles_beside m e =
     length (filter (\<lambda>h. degree m (he_face m h) = Some 3)
       [e_halfedge m e, he_twin m (e_halfedge m e)])"


text \<open>The exchange of two elements: \<open>a\<close> for \<open>b\<close>, \<open>b\<close> for \<open>a\<close>, everything else kept.\<close>

definition exchange :: "nat \<Rightarrow> nat \<Rightarrow> nat \<Rightarrow> nat" where
  "exchange a b x = (if x = a then b else if x = b then a else x)"

section \<open>Example meshes\<close>

text \<open>
  A tetrahedron: vertices 0 to 3, faces (0,1,2), (0,3,1), (0,2,3) and (1,3,2), three
  half-edges per face in that order. A pillow: two triangles (0,1,2) and (0,2,1) glued along
  all three edges. A lone triangle: the pillow with its second face a boundary loop.
\<close>

definition tetra :: Halfedge_Mesh where
  "tetra = \<lparr>he_twin = (\<lambda>h. [5,11,6,8,9,0,2,10,3,4,7,1] ! h),
     he_next = (\<lambda>h. [1,2,0,4,5,3,7,8,6,10,11,9] ! h),
     he_vertex = (\<lambda>h. [0,1,2,0,3,1,0,2,3,1,3,2] ! h),
     he_edge = (\<lambda>h. [0,1,2,3,4,0,2,5,3,4,5,1] ! h),
     he_face = (\<lambda>h. [0,0,0,1,1,1,2,2,2,3,3,3] ! h),
     v_halfedge = (\<lambda>v. [0,1,2,4] ! v),
     v_pos = (\<lambda>v. [(0,0,0),(1,0,0),(0,1,0),(0,0,1)] ! v),
     e_halfedge = (\<lambda>e. [0,1,2,3,4,7] ! e),
     f_halfedge = (\<lambda>f. [0,3,6,9] ! f),
     f_boundary = (\<lambda>f. False),
     vertices = [0,1,2,3], edges = [0,1,2,3,4,5], faces = [0,1,2,3],
     halfedges = [0,1,2,3,4,5,6,7,8,9,10,11],
     verased = {}, eerased = {}, ferased = {}, herased = {}, next_id = 12\<rparr>"

definition pillow :: Halfedge_Mesh where
  "pillow = \<lparr>he_twin = (\<lambda>h. [5,4,3,2,1,0] ! h),
     he_next = (\<lambda>h. [1,2,0,4,5,3] ! h),
     he_vertex = (\<lambda>h. [0,1,2,0,2,1] ! h),
     he_edge = (\<lambda>h. [0,1,2,2,1,0] ! h),
     he_face = (\<lambda>h. [0,0,0,1,1,1] ! h),
     v_halfedge = (\<lambda>v. [0,1,2] ! v),
     v_pos = (\<lambda>v. [(0,0,0),(1,0,0),(0,1,0)] ! v),
     e_halfedge = (\<lambda>e. [0,1,2] ! e),
     f_halfedge = (\<lambda>f. [0,3] ! f),
     f_boundary = (\<lambda>f. False),
     vertices = [0,1,2], edges = [0,1,2], faces = [0,1],
     halfedges = [0,1,2,3,4,5],
     verased = {}, eerased = {}, ferased = {}, herased = {}, next_id = 6\<rparr>"


definition lone_triangle :: Halfedge_Mesh where
  "lone_triangle = pillow\<lparr>f_boundary := (\<lambda>f. f = 1)\<rparr>"

text \<open>
  A square pillow: two quadrilaterals (0,1,2,3) and (0,3,2,1) glued along all four edges.
  The same pillow after a flip of its edge 0: half-edges 3 and 4, the two sides of edge 3,
  then lie on the same face.
\<close>

definition quad_pillow :: Halfedge_Mesh where
  "quad_pillow = \<lparr>he_twin = (\<lambda>h. [7,6,5,4,3,2,1,0] ! h),
     he_next = (\<lambda>h. [1,2,3,0,5,6,7,4] ! h),
     he_vertex = (\<lambda>h. [0,1,2,3,0,3,2,1] ! h),
     he_edge = (\<lambda>h. [0,1,2,3,3,2,1,0] ! h),
     he_face = (\<lambda>h. [0,0,0,0,1,1,1,1] ! h),
     v_halfedge = (\<lambda>v. [4,1,2,3] ! v),
     v_pos = (\<lambda>v. [(0,0,0),(1,0,0),(1,1,0),(0,1,0)] ! v),
     e_halfedge = (\<lambda>e. [0,1,2,3] ! e),
     f_halfedge = (\<lambda>f. [0,4] ! f),
     f_boundary = (\<lambda>f. False),
     vertices = [0,1,2,3], edges = [0,1,2,3], faces = [0,1],
     halfedges = [0,1,2,3,4,5,6,7],
     verased = {}, eerased = {}, ferased = {}, herased = {}, next_id = 8\<rparr>"



text \<open>
  Two placements of the edge elements in memory, one with addresses growing with the edge
  number and one with addresses falling, records of equal cost, and records whose cost is
  not a number.
\<close>

definition placement_up :: "nat \<Rightarrow> nat" where
  "placement_up e = 4096 + 64 * e"


definition tie_record :: "nat \<Rightarrow> Edge_Record" where
  "tie_record e = \<lparr>edge = e, optimal = (Number 0, Number 0, Number 0), cost = Number 0\<rparr>"


text \<open>A linear algebra that computes nothing, for calls that never reach it.\<close>

definition null_mathlib :: "unit mathlib" where
  "null_mathlib =
     \<lparr>mat_default = (), mat_add = (\<lambda>a b. ()), mat_outer = (\<lambda>a b. ()),
      mat_entry = (\<lambda>a i j. Number 0), mat_inverse = (\<lambda>a. ()), mat_apply = (\<lambda>a v. v),
      vec_dot = (\<lambda>a b. Number 0), vec_neg = (\<lambda>v. v),
      face_normal = (\<lambda>m f. (Number 0, Number 0, Number 0))\<rparr>"

section \<open>Basic facts\<close>

lemma exec_Nil: "exec [] m = m"
  by (simp add: exec_def)

lemma exec_Cons: "exec (s # ss) m = exec ss (s m)"
  by (simp add: exec_def)

lemmas exec_simps = exec_Nil exec_Cons

lemmas setters = set_twin_def set_next_def set_vertex_def set_edge_def set_face_def
  set_v_halfedge_def set_v_pos_def set_e_halfedge_def set_f_halfedge_def
  erase_e_def erase_f_def erase_v_def erase_h_def

lemmas allocs = new_vertex_def new_edge_def new_face_def new_halfedge_def

lemma cycle_from_unfold:
  "cycle_from f s h n =
     (if n = 0 then None
      else if f h = s then Some [h] else map_option ((#) h) (cycle_from f s (f h) (n - 1)))"
  by (cases n) simp_all

lemmas live_defs = live_v_def live_e_def live_f_def live_h_def
  live_vertices_def live_edges_def live_faces_def live_halfedges_def

lemmas valid_defs = valid_def arena_ok_def twin_ok_def faces_ok_def face_cycle_ok_def
  edges_ok_def vertices_ok_def vertex_fan_ok_def live_defs degree_def

lemma valid_tetra: "valid tetra"
  by (simp add: valid_defs tetra_def cycle_from_unfold degree_loop.simps)

lemma valid_pillow: "valid pillow"
  by (simp add: valid_defs pillow_def cycle_from_unfold degree_loop.simps)

lemma valid_lone_triangle: "valid lone_triangle"
  by (simp add: valid_defs lone_triangle_def pillow_def cycle_from_unfold degree_loop.simps)

lemma valid_quad_pillow: "valid quad_pillow"
  by (simp add: valid_defs quad_pillow_def cycle_from_unfold degree_loop.simps)

lemma live_lists:
  "live_v m x \<longleftrightarrow> x \<in> set (live_vertices m)"
  "live_e m x \<longleftrightarrow> x \<in> set (live_edges m)"
  "live_f m x \<longleftrightarrow> x \<in> set (live_faces m)"
  "live_h m x \<longleftrightarrow> x \<in> set (live_halfedges m)"
  by (auto simp: live_defs)

lemma valid_edge_halfedge:
  "valid m \<Longrightarrow> live_e m e \<Longrightarrow> live_h m (e_halfedge m e) \<and> he_edge m (e_halfedge m e) = e"
  by (simp add: valid_def edges_ok_def list_all_iff live_lists)

lemma valid_twin:
  "valid m \<Longrightarrow> live_h m h \<Longrightarrow>
   live_h m (he_twin m h) \<and> he_twin m (he_twin m h) = h \<and> he_twin m h \<noteq> h"
  by (simp add: valid_def twin_ok_def list_all_iff live_lists)

lemma valid_halfedge_face:
  "valid m \<Longrightarrow> live_h m h \<Longrightarrow> live_h m (he_next m h) \<and> live_f m (he_face m h) \<and> face_cycle_ok m h"
  by (simp add: valid_def faces_ok_def list_all_iff live_lists)


lemma valid_halfedge_vertex: "valid m \<Longrightarrow> live_h m h \<Longrightarrow> live_v m (he_vertex m h)"
  by (simp add: valid_def vertices_ok_def list_all_iff live_lists)





section \<open>Walks and cycles\<close>



lemma find_prev_found: "nxt h = t \<Longrightarrow> find_prev nxt t h = Some h"
  by (simp add: find_prev.simps)

lemma cycle_from_head: "cycle_from f s h n = Some c \<Longrightarrow> h \<in> set c"
  by (cases n) (auto split: if_splits)

lemma cycle_from_step:
  "cycle_from f s h n = Some c \<Longrightarrow> x \<in> set c \<Longrightarrow> f x \<in> set c \<or> f x = s"
proof (induction n arbitrary: h c)
  case 0
  then show ?case by simp
next
  case (Suc n)
  show ?case
  proof (cases "f h = s")
    case True
    with Suc.prems show ?thesis by auto
  next
    case False
    with Suc.prems obtain c' where c': "cycle_from f s (f h) n = Some c'" and c: "c = h # c'"
      by auto
    show ?thesis
    proof (cases "x = h")
      case True
      with c cycle_from_head [OF c'] show ?thesis by simp
    next
      case False
      with Suc.prems(2) c have "x \<in> set c'" by simp
      from Suc.IH [OF c' this] c show ?thesis by auto
    qed
  qed
qed

lemma cycle_from_closed:
  assumes "cycle_from f s s n = Some c" and "x \<in> set c"
  shows "f x \<in> set c"
  using cycle_from_step [OF assms] cycle_from_head [OF assms(1)] by auto

lemma cycle_from_three:
  assumes "cycle_from f h h n = Some c" "f h \<noteq> h" "f (f h) \<noteq> h" "f (f (f h)) = h"
  shows "c = [h, f h, f (f h)]"
proof -
  from assms obtain n1 where n1: "n = Suc n1" by (cases n) auto
  with assms obtain c1 where c1: "cycle_from f h (f h) n1 = Some c1" "c = h # c1" by auto
  with assms obtain n2 where n2: "n1 = Suc n2" by (cases n1) auto
  with c1 assms obtain c2 where c2: "cycle_from f h (f (f h)) n2 = Some c2" "c1 = f h # c2" by auto
  with assms obtain n3 where n3: "n2 = Suc n3" by (cases n2) auto
  with c2 assms have "c2 = [f (f h)]" by simp
  with c1 c2 show ?thesis by simp
qed

lemma valid_next_vertex:
  assumes "valid m" and "live_h m h"
  shows "he_vertex m (he_next m h) = he_vertex m (he_twin m h)"
proof -
  define t where "t = he_twin m h"
  define v where "v = he_vertex m t"
  have t: "live_h m t" "he_twin m t = h"
    using valid_twin [OF assms] by (simp_all add: t_def)
  have v: "live_v m v"
    using valid_halfedge_vertex [OF assms(1) t(1)] by (simp add: v_def)
  then have fan: "vertex_fan_ok m v"
    using assms(1) by (simp add: valid_def vertices_ok_def list_all_iff live_lists)
  then obtain c where
    c: "cycle_from (\<lambda>h. he_next m (he_twin m h)) (v_halfedge m v) (v_halfedge m v)
          (length (halfedges m)) = Some c"
    and all: "list_all (\<lambda>h. he_vertex m h = v) c"
    and mem: "list_all (\<lambda>h. h \<in> set c) (filter (\<lambda>h. he_vertex m h = v) (live_halfedges m))"
    by (auto simp: vertex_fan_ok_def split: option.splits)
  have "t \<in> set c"
    using mem t(1) by (simp add: list_all_iff live_lists v_def)
  from cycle_from_closed [OF c this] have "he_next m h \<in> set c"
    by (simp add: t(2))
  with all show ?thesis by (simp add: list_all_iff v_def t_def)
qed

lemma valid_next_face:
  assumes "valid m" and "live_h m h"
  shows "he_face m (he_next m h) = he_face m h"
proof -
  have "face_cycle_ok m h"
    using valid_halfedge_face [OF assms] by simp
  then obtain c where
    c: "cycle_from (he_next m) h h (length (halfedges m)) = Some c"
    and all: "list_all (\<lambda>x. he_face m x = he_face m h) c"
    by (auto simp: face_cycle_ok_def split: option.splits)
  from cycle_from_closed [OF c cycle_from_head [OF c]] all show ?thesis
    by (simp add: list_all_iff)
qed

lemma valid_triangle_degree:
  assumes "valid m" and "live_h m h" and "proper_triangle m h"
  shows "degree m (he_face m h) = Some 3"
proof -
  have "face_cycle_ok m h"
    using valid_halfedge_face [OF assms(1,2)] by simp
  then obtain c where
    c: "cycle_from (he_next m) h h (length (halfedges m)) = Some c"
    and d: "degree m (he_face m h) = Some (length c)"
    by (auto simp: face_cycle_ok_def split: option.splits)
  have "he_next m h \<noteq> h" "he_next m (he_next m h) \<noteq> h" "he_next m (he_next m (he_next m h)) = h"
    using assms(3) by (auto simp: proper_triangle_def)
  from cycle_from_three [OF c this] d show ?thesis by simp
qed

lemma edge_facts:
  assumes valid: "valid m" and live: "live_e m e"
  defines "he1 \<equiv> e_halfedge m e" and "he2 \<equiv> he_twin m (e_halfedge m e)"
  shows "live_h m he1" "live_h m he2" "he_twin m he2 = he1" "he1 \<noteq> he2"
    "he_vertex m (he_next m he1) = he_vertex m he2"
    "he_vertex m (he_next m he2) = he_vertex m he1"
    "live_h m (he_next m (he_next m he1))" "live_h m (he_next m (he_next m he2))"
proof -
  show l1: "live_h m he1"
    using valid_edge_halfedge [OF valid live] by (simp add: he1_def)
  show l2: "live_h m he2"
    using valid_twin [OF valid l1] by (simp add: he1_def he2_def)
  show "he_twin m he2 = he1" "he1 \<noteq> he2"
    using valid_twin [OF valid l1] by (auto simp: he1_def he2_def)
  then show "he_vertex m (he_next m he1) = he_vertex m he2"
    "he_vertex m (he_next m he2) = he_vertex m he1"
    using valid_next_vertex [OF valid l1] valid_next_vertex [OF valid l2]
    by (simp_all add: he1_def he2_def)
  show "live_h m (he_next m (he_next m he1))"
    using valid_halfedge_face [OF valid l1] valid_halfedge_face [OF valid, of "he_next m he1"]
    by simp
  show "live_h m (he_next m (he_next m he2))"
    using valid_halfedge_face [OF valid l2] valid_halfedge_face [OF valid, of "he_next m he2"]
    by simp
qed


lemma six_distinct:
  assumes nx: "nxt he1 = n1" "nxt n1 = nn1" "nxt nn1 = he1" "nxt he2 = n2" "nxt n2 = nn2" "nxt nn2 = he2"
    and v: "vtx n1 = vtx he2" "vtx n2 = vtx he1"
    and d: "vtx he1 \<noteq> vtx he2" "vtx he1 \<noteq> vtx nn1" "vtx he2 \<noteq> vtx nn1"
      "vtx he2 \<noteq> vtx nn2" "vtx he1 \<noteq> vtx nn2"
  shows "distinct [he1, n1, nn1, he2, n2, nn2]"
proof -
  have a: "he1 \<noteq> n1" "he1 \<noteq> nn1" "he1 \<noteq> he2" "he1 \<noteq> nn2"
    using v d by metis+
  have b: "n1 \<noteq> nn1" "n1 \<noteq> n2" "n1 \<noteq> nn2"
    using v d by metis+
  have c: "nn1 \<noteq> he2" "nn1 \<noteq> n2" "he2 \<noteq> n2" "he2 \<noteq> nn2" "n2 \<noteq> nn2"
    using v d by metis+
  have e: "he1 \<noteq> n2"
    using nx(1,5) b(3) by metis
  have f: "n1 \<noteq> he2"
    using nx(2,4) c(2) by metis
  have g: "nn1 \<noteq> nn2"
    using nx(3,6) a(3) by metis
  from a b c e f g show ?thesis by simp
qed







section \<open>Invariant preservation\<close>

text \<open>
  C1. The claim: every successful \<open>flip_edge\<close>, \<open>split_edge\<close> or \<open>collapse_edge\<close> on a mesh that
  satisfies the half-edge invariants leaves a mesh that satisfies them. The flip moves the
  origins of the edge's two half-edges to the opposite corners and never looks at the
  vertices that lose them: on the tetrahedron, vertex 0 is live after the flip of edge 0 and
  its representative half-edge is still half-edge 0, which now leaves vertex 3.
\<close>

theorem flip_edge_breaks_vertex_invariant:
  "valid tetra \<and>
   (case flip_edge tetra 0 of
      Some (Some e', m') \<Rightarrow>
        e' = 0 \<and> live_v m' 0 \<and> v_halfedge m' 0 = 0 \<and> he_vertex m' 0 = 3 \<and>
        \<not> vertices_ok m' \<and> \<not> valid m'
    | _ \<Rightarrow> False)"
  by (rule conjI [OF valid_tetra])
     (simp add: flip_edge_def on_boundary_def is_boundary_def find_prev.simps Let_def exec_simps
        setters valid_def vertices_ok_def live_defs tetra_def)

section \<open>Refusals\<close>

lemma collapse_edge_refusal: "collapse_edge m e = Some (None, m') \<Longrightarrow> m' = m"
  by (auto simp: collapse_edge_def Let_def bind_eq_Some_conv split: if_splits prod.splits)

lemma flip_edge_refusal: "flip_edge m e = Some (None, m') \<Longrightarrow> m' = m"
  by (auto simp: flip_edge_def Let_def bind_eq_Some_conv split: if_splits)

lemma split_edge_refusal: "split_edge m e = (None, m') \<Longrightarrow> m' = m"
  by (auto simp: split_edge_def Let_def split: if_splits prod.splits)

lemma simplify_refusal:
  assumes "simplify L addr junk m = Some (Inr (False, m'))"
  shows "m' = m"
proof (cases "length (edges m) < 3")
  case True
  with assms show ?thesis by (simp add: simplify_def)
next
  case False
  with assms obtain r :: "fault + 'a simplify_state" where
    "(case r of Inl flt \<Rightarrow> Some (Inl flt) | Inr s \<Rightarrow> Some (Inr (True, mesh s)))
       = Some (Inr (False, m'))"
    by (auto simp: simplify_def Let_def bind_eq_Some_conv)
  then show ?thesis by (cases r) auto
qed

text \<open>
  C2. Every operator call that refuses (an empty optional, or a false flag from a
  whole-mesh operator) hands back the mesh it was given: the lists, the erase sets, every
  connectivity field and every position are those of the mesh before the call.
\<close>

theorem refusal_leaves_mesh_unchanged:
  assumes "call L addr junk m c = Some (Inr (out, m'))" and "refused out"
  shows "m' = m"
proof (cases c)
  case (Collapse_edge e)
  with assms show ?thesis
    by (auto simp: local_result_def dest: collapse_edge_refusal)
next
  case (Flip_edge e)
  with assms show ?thesis
    by (auto simp: local_result_def dest: flip_edge_refusal)
next
  case (Split_edge e)
  with assms show ?thesis
    by (cases "split_edge m e") (auto simp: local_result_def dest: split_edge_refusal)
next
  case Simplify
  with assms show ?thesis
    by (cases "simplify L addr junk m") (auto simp: map_sum_def split: sum.splits dest: simplify_refusal)
qed (use assms in \<open>auto simp: local_result_def erase_vertex_def erase_edge_def collapse_face_def
       bevel_vertex_def bevel_edge_def bevel_face_def isotropic_remesh_def\<close>)


theorem refusal_leaves_mesh_unchanged_witness:
  "call null_mathlib placement_up (tie_record 0) lone_triangle (Flip_edge 0) =
     Some (Inr (Handle None, lone_triangle)) \<and>
   refused (Handle None)"
proof -
  have run: "call null_mathlib placement_up (tie_record 0) lone_triangle (Flip_edge 0) =
      Some (Inr (Handle None, snd (the (flip_edge lone_triangle 0))))"
    by (simp add: flip_edge_def on_boundary_def is_boundary_def local_result_def
          lone_triangle_def pillow_def)
  have "snd (the (flip_edge lone_triangle 0)) = lone_triangle"
    using refusal_leaves_mesh_unchanged [OF run] by simp
  with run show ?thesis by simp
qed

section \<open>Vertex erase\<close>

text \<open>
  C3. The claim: for some valid input, \<open>erase_vertex\<close> succeeds and returns the merged face.
  The code refuses every call and leaves the mesh as it was.
\<close>

theorem erase_vertex_always_refuses: "erase_vertex m v = (None, m)"
  by (simp add: erase_vertex_def)

section \<open>Edge split\<close>

text \<open>
  C4. The claim: the representative half-edge of the vertex a split inserts lies along the
  split edge. On the tetrahedron, edge 0 joins vertices 0 and 1; after the split the new
  vertex 12 has as its representative a half-edge of the new edge 16 that runs from 12 to
  vertex 3, the corner opposite the split edge in one of the two faces.
\<close>

theorem split_edge_representative_on_new_edge:
  "he_vertex tetra (e_halfedge tetra 0) = 0 \<and>
   he_vertex tetra (he_twin tetra (e_halfedge tetra 0)) = 1 \<and>
   (case split_edge tetra 0 of
      (Some v, m') \<Rightarrow>
        v = 12 \<and> he_vertex m' (v_halfedge m' v) = v \<and>
        he_vertex m' (he_twin m' (v_halfedge m' v)) = 3 \<and>
        he_edge m' (v_halfedge m' v) = 16 \<and> 16 \<notin> set (edges tetra)
    | _ \<Rightarrow> False)"
  by (simp add: split_edge_def is_boundary_def Let_def exec_simps setters allocs tetra_def)










section \<open>Edge collapse\<close>





text \<open>The two proper triangles beside an edge: six different half-edges.\<close>

lemma edge_between_triangles:
  assumes valid: "valid m" and tri: "triangle_mesh m" and live: "live_e m e"
    and inner: "\<not> on_boundary m e"
  defines "he1 \<equiv> e_halfedge m e" and "he2 \<equiv> he_twin m (e_halfedge m e)"
  shows "live_h m he1" "live_h m he2" "proper_triangle m he1" "proper_triangle m he2"
    "he_twin m he2 = he1" "he1 \<noteq> he2"
    "he_vertex m (he_next m he1) = he_vertex m he2"
    "he_vertex m (he_next m he2) = he_vertex m he1"
    "live_h m (he_next m (he_next m he1))" "live_h m (he_next m (he_next m he2))"
proof -
  show l1: "live_h m he1"
    using valid_edge_halfedge [OF valid live] by (simp add: he1_def)
  show l2: "live_h m he2"
    using valid_twin [OF valid l1] by (simp add: he1_def he2_def)
  have "\<not> is_boundary m he1" "\<not> is_boundary m he2"
    using inner by (simp_all add: on_boundary_def he1_def he2_def)
  with tri l1 l2 show "proper_triangle m he1" "proper_triangle m he2"
    by (auto simp: triangle_mesh_def list_all_iff live_lists)
  show "he_twin m he2 = he1" "he1 \<noteq> he2"
    using valid_twin [OF valid l1] by (auto simp: he1_def he2_def)
  then show "he_vertex m (he_next m he1) = he_vertex m he2"
    "he_vertex m (he_next m he2) = he_vertex m he1"
    using valid_next_vertex [OF valid l1] valid_next_vertex [OF valid l2]
    by (simp_all add: he1_def he2_def)
  show "live_h m (he_next m (he_next m he1))"
    using valid_halfedge_face [OF valid l1] valid_halfedge_face [OF valid, of "he_next m he1"]
    by simp
  show "live_h m (he_next m (he_next m he2))"
    using valid_halfedge_face [OF valid l2] valid_halfedge_face [OF valid, of "he_next m he2"]
    by simp
qed

lemmas collapse_eval = collapse_edge_def collapse_side1_def collapse_side2_def
  find_prev.simps retarget.simps degree_def degree_loop.simps Let_def exec_simps setters allocs
  center_def midpoint3_def





text \<open>
  In a triangle mesh both faces beside a non-boundary edge are proper triangles, so the
  edge is as a manifold has it as soon as the two faces differ.
\<close>

lemma triangle_mesh_manifold_at:
  assumes valid: "valid m" and tri: "triangle_mesh m" and live: "live_e m e"
    and inner: "\<not> on_boundary m e"
    and sides: "he_face m (e_halfedge m e) \<noteq> he_face m (he_twin m (e_halfedge m e))"
  shows "manifold_at m e \<and> triangles_beside m e = 2"
proof -
  note facts = edge_between_triangles [OF valid tri live inner]
  have d: "degree m (he_face m (e_halfedge m e)) = Some 3"
    "degree m (he_face m (he_twin m (e_halfedge m e))) = Some 3"
    using valid_triangle_degree [OF valid facts(1) facts(3)]
      valid_triangle_degree [OF valid facts(2) facts(4)] .
  have "he_vertex m (e_halfedge m e) \<noteq> he_vertex m (he_twin m (e_halfedge m e))"
    using facts(3) facts(7) by (auto simp: proper_triangle_def)
  with d sides facts(3,4) show ?thesis
    by (simp add: manifold_at_def triangles_beside_def)
qed




section \<open>Two flips\<close>

lemma flip_edge_triangles:
  fixes m e
  defines "he1 \<equiv> e_halfedge m e"
  defines "he2 \<equiv> he_twin m he1"
  defines "n1 \<equiv> he_next m he1" and "n2 \<equiv> he_next m he2"
  defines "nn1 \<equiv> he_next m n1" and "nn2 \<equiv> he_next m n2"
  assumes inner: "\<not> on_boundary m e"
    and cyc: "he_next m nn1 = he1" "he_next m nn2 = he2"
    and ne: "he1 \<noteq> n1"
  shows "flip_edge m e = Some (Some e,
    m\<lparr>he_vertex := (he_vertex m)(he1 := he_vertex m nn2, he2 := he_vertex m nn1),
      he_next := (he_next m)(he1 := nn1, he2 := nn2, n1 := he2, n2 := he1, nn1 := n2, nn2 := n1),
      f_halfedge := (f_halfedge m)(he_face m he1 := he1, he_face m he2 := he2),
      he_face := (he_face m)(n1 := he_face m he2, n2 := he_face m he1)\<rparr>)"
proof -
  have p1: "find_prev (he_next m) he1 nn1 = Some nn1"
    and p2: "find_prev (he_next m) he2 nn2 = Some nn2"
    using cyc by (simp_all add: find_prev_found)
  have "flip_edge m e = Some (Some e, exec [
          set_vertex he1 (he_vertex m nn2),
          set_vertex he2 (he_vertex m nn1),
          set_next he1 nn1,
          set_next he2 nn2,
          set_next n1 he2,
          set_next n2 he1,
          set_next nn1 n2,
          set_next nn2 n1,
          (\<lambda>m. set_f_halfedge (he_face m he1) he1 m),
          (\<lambda>m. set_f_halfedge (he_face m he2) he2 m),
          (\<lambda>m. set_face n1 (he_face m he2) m),
          (\<lambda>m. set_face n2 (he_face m he1) m)] m)"
    using inner p1 p2
    unfolding flip_edge_def Let_def he1_def he2_def n1_def n2_def nn1_def nn2_def
    by simp
  also have "\<dots> = Some (Some e,
    m\<lparr>he_vertex := (he_vertex m)(he1 := he_vertex m nn2, he2 := he_vertex m nn1),
      he_next := (he_next m)(he1 := nn1, he2 := nn2, n1 := he2, n2 := he1, nn1 := n2, nn2 := n1),
      f_halfedge := (f_halfedge m)(he_face m he1 := he1, he_face m he2 := he2),
      he_face := (he_face m)(n1 := he_face m he2, n2 := he_face m he1)\<rparr>)"
    using ne by (simp add: exec_simps setters)
  finally show ?thesis .
qed


text \<open>
  C7, as the code has it. A flip turns the edge a quarter of the way round the quadrilateral
  of its two triangles, so two flips turn it half way: the edge joins its two old end points
  again, with the roles of its two half-edges exchanged and the two faces exchanged with
  them. For a non-boundary edge between two proper triangles of a mesh that satisfies the
  invariants, the two flips succeed and hand back the same edge; every half-edge has
  afterwards the vertex that its exchange partner had before; and on the six half-edges of
  the two triangles \<open>next\<close> and \<open>face\<close> are those of the mesh before, read through the exchange.
  Twins, edges and the half-edges outside the two triangles are untouched.
\<close>

theorem double_flip_exchanges_halfedges:
  fixes m e
  defines "he1 \<equiv> e_halfedge m e"
  defines "he2 \<equiv> he_twin m he1"
  defines "n1 \<equiv> he_next m he1" and "n2 \<equiv> he_next m he2"
  defines "nn1 \<equiv> he_next m n1" and "nn2 \<equiv> he_next m n2"
  assumes valid: "valid m" and live: "live_e m e" and inner: "\<not> on_boundary m e"
    and t1: "proper_triangle m he1" and t2: "proper_triangle m he2"
  shows "\<exists>m2. flip_twice m e = Some (Some e, m2) \<and>
           he_twin m2 = he_twin m \<and> he_edge m2 = he_edge m \<and> e_halfedge m2 = e_halfedge m \<and>
           (\<forall>h. he_vertex m2 h = he_vertex m (exchange he1 he2 h)) \<and>
           (\<forall>h. he_next m2 h =
                  (if h \<in> {he1, n1, nn1, he2, n2, nn2}
                   then exchange he1 he2 (he_next m (exchange he1 he2 h)) else he_next m h)) \<and>
           (\<forall>h. he_face m2 h =
                  (if h \<in> {he1, n1, nn1, he2, n2, nn2}
                   then exchange (he_face m he1) (he_face m he2) (he_face m (exchange he1 he2 h))
                   else he_face m h))"
proof -
  note facts = edge_facts [OF valid live, folded he1_def, folded he2_def]
  have l1: "live_h m he1" and l2: "live_h m he2" by (rule facts)+
  have cyc: "he_next m nn1 = he1" "he_next m nn2 = he2"
    using t1 t2 by (simp_all add: proper_triangle_def n1_def nn1_def n2_def nn2_def)
  have vA: "he_vertex m n1 = he_vertex m he2" and vB: "he_vertex m n2 = he_vertex m he1"
    using facts(5,6) by (simp_all add: n1_def n2_def)
  have c1: "he_vertex m he1 \<noteq> he_vertex m he2" "he_vertex m he1 \<noteq> he_vertex m nn1"
    "he_vertex m he2 \<noteq> he_vertex m nn1"
    using t1 vA by (auto simp: proper_triangle_def n1_def nn1_def)
  have c2: "he_vertex m he2 \<noteq> he_vertex m nn2" "he_vertex m he1 \<noteq> he_vertex m nn2"
    using t2 vB by (auto simp: proper_triangle_def n2_def nn2_def)
  have nx: "he_next m he1 = n1" "he_next m n1 = nn1" "he_next m he2 = n2" "he_next m n2 = nn2"
    by (simp_all add: n1_def nn1_def n2_def nn2_def)
  have six: "distinct [he1, n1, nn1, he2, n2, nn2]"
    by (rule six_distinct [of "he_next m" _ _ _ _ _ _ "he_vertex m"]) (fact nx cyc vA vB c1 c2)+
  have face: "he_face m n1 = he_face m he1" "he_face m nn1 = he_face m he1"
    "he_face m n2 = he_face m he2" "he_face m nn2 = he_face m he2"
    using valid_next_face [OF valid l1] valid_next_face [OF valid l2]
      valid_next_face [OF valid, of n1] valid_next_face [OF valid, of n2]
      valid_halfedge_face [OF valid l1] valid_halfedge_face [OF valid l2]
    by (simp_all add: n1_def nn1_def n2_def nn2_def)

  define m1 where "m1 =
    m\<lparr>he_vertex := (he_vertex m)(he1 := he_vertex m nn2, he2 := he_vertex m nn1),
      he_next := (he_next m)(he1 := nn1, he2 := nn2, n1 := he2, n2 := he1, nn1 := n2, nn2 := n1),
      f_halfedge := (f_halfedge m)(he_face m he1 := he1, he_face m he2 := he2),
      he_face := (he_face m)(n1 := he_face m he2, n2 := he_face m he1)\<rparr>"
  have first: "flip_edge m e = Some (Some e, m1)"
    unfolding m1_def he1_def he2_def n1_def n2_def nn1_def nn2_def
    using inner cyc six
    by (intro flip_edge_triangles) (simp_all add: he1_def he2_def n1_def n2_def nn1_def nn2_def)

  have loc: "e_halfedge m1 e = he1" "he_twin m1 he1 = he2"
    "he_next m1 he1 = nn1" "he_next m1 nn1 = n2" "he_next m1 n2 = he1"
    "he_next m1 he2 = nn2" "he_next m1 nn2 = n1" "he_next m1 n1 = he2"
    using six by (auto simp: m1_def he1_def he2_def)
  have inner1: "\<not> on_boundary m1 e"
    using inner six by (auto simp: on_boundary_def is_boundary_def m1_def he1_def he2_def)
  define m2 where "m2 =
    m1\<lparr>he_vertex := (he_vertex m1)(he1 := he_vertex m1 n1, he2 := he_vertex m1 n2),
      he_next := (he_next m1)(he1 := n2, he2 := n1, nn1 := he2, nn2 := he1, n2 := nn2, n1 := nn1),
      f_halfedge := (f_halfedge m1)(he_face m1 he1 := he1, he_face m1 he2 := he2),
      he_face := (he_face m1)(nn1 := he_face m1 he2, nn2 := he_face m1 he1)\<rparr>"
  have second: "flip_edge m1 e = Some (Some e, m2)"
    using flip_edge_triangles [of m1 e] inner1 six
    by (simp add: loc m2_def)
  have twice: "flip_twice m e = Some (Some e, m2)"
    by (simp add: flip_twice_def first second)
  have same: "he_twin m2 = he_twin m" "he_edge m2 = he_edge m" "e_halfedge m2 = e_halfedge m"
    by (simp_all add: m2_def m1_def)
  have vert: "he_vertex m2 h = he_vertex m (exchange he1 he2 h)" for h
    using six vA vB by (auto simp: m2_def m1_def exchange_def)
  have nxt: "he_next m2 h =
      (if h \<in> {he1, n1, nn1, he2, n2, nn2}
       then exchange he1 he2 (he_next m (exchange he1 he2 h)) else he_next m h)" for h
  proof (cases "h \<in> {he1, n1, nn1, he2, n2, nn2}")
    case False
    then show ?thesis by (simp add: m2_def m1_def)
  next
    case True
    then consider "h = he1" | "h = n1" | "h = nn1" | "h = he2" | "h = n2" | "h = nn2"
      by auto
    then show ?thesis
      using six by cases (auto simp add: m2_def m1_def exchange_def nx cyc)
  qed
  have fac: "he_face m2 h =
      (if h \<in> {he1, n1, nn1, he2, n2, nn2}
       then exchange (he_face m he1) (he_face m he2) (he_face m (exchange he1 he2 h))
       else he_face m h)" for h
    using six face by (auto simp: m2_def m1_def exchange_def)
  from twice same vert nxt fac show ?thesis by blast
qed

theorem double_flip_witness:
  "valid tetra \<and> live_e tetra 0 \<and> \<not> on_boundary tetra 0 \<and>
   proper_triangle tetra (e_halfedge tetra 0) \<and>
   proper_triangle tetra (he_twin tetra (e_halfedge tetra 0)) \<and>
   fst (the (flip_twice tetra 0)) = Some 0 \<and>
   he_vertex (snd (the (flip_twice tetra 0))) (e_halfedge tetra 0)
     = he_vertex tetra (he_twin tetra (e_halfedge tetra 0))"
proof -
  have live: "live_e tetra 0" and inner: "\<not> on_boundary tetra 0"
    by (simp_all add: live_e_def on_boundary_def is_boundary_def tetra_def)
  have t1: "proper_triangle tetra (e_halfedge tetra 0)"
    and t2: "proper_triangle tetra (he_twin tetra (e_halfedge tetra 0))"
    by (simp_all add: proper_triangle_def tetra_def)
  from double_flip_exchanges_halfedges [OF valid_tetra live inner t1 t2]
  obtain m2 where run: "flip_twice tetra 0 = Some (Some 0, m2)"
    and vert: "\<And>h. he_vertex m2 h =
      he_vertex tetra (exchange (e_halfedge tetra 0) (he_twin tetra (e_halfedge tetra 0)) h)"
    by blast
  have "he_vertex m2 (e_halfedge tetra 0) = he_vertex tetra (he_twin tetra (e_halfedge tetra 0))"
    by (simp add: vert exchange_def)
  with valid_tetra live inner t1 t2 run show ?thesis by simp
qed


text \<open>
  C7, as the claim has it: after two flips every half-edge has the vertex and the face it had
  before. On the tetrahedron half-edge 0 leaves vertex 0 before and vertex 1 after the two
  flips of edge 0, and half-edge 1 has moved from face 0 to face 1. Between two
  quadrilaterals the edge does not even come back to its end points: on the square pillow
  edge 0 joins vertices 0 and 1 before and vertices 2 and 3 after.
\<close>

theorem double_flip_changes_halfedges:
  "valid tetra \<and> fst (the (flip_twice tetra 0)) = Some 0 \<and>
   he_vertex (snd (the (flip_twice tetra 0))) 0 = 1 \<and> he_vertex tetra 0 = 0 \<and>
   he_face (snd (the (flip_twice tetra 0))) 1 = 1 \<and> he_face tetra 1 = 0 \<and>
   valid quad_pillow \<and> fst (the (flip_twice quad_pillow 0)) = Some 0 \<and>
   he_vertex quad_pillow 0 = 0 \<and> he_vertex quad_pillow 7 = 1 \<and>
   he_vertex (snd (the (flip_twice quad_pillow 0))) 0 = 2 \<and>
   he_vertex (snd (the (flip_twice quad_pillow 0))) 7 = 3"
proof -
  have "fst (the (flip_twice tetra 0)) = Some 0 \<and>
    he_vertex (snd (the (flip_twice tetra 0))) 0 = 1 \<and> he_vertex tetra 0 = 0 \<and>
    he_face (snd (the (flip_twice tetra 0))) 1 = 1 \<and> he_face tetra 1 = 0"
    by (simp add: flip_twice_def flip_edge_def on_boundary_def is_boundary_def find_prev.simps
          Let_def exec_simps setters tetra_def)
  moreover have "fst (the (flip_twice quad_pillow 0)) = Some 0 \<and>
    he_vertex quad_pillow 0 = 0 \<and> he_vertex quad_pillow 7 = 1 \<and>
    he_vertex (snd (the (flip_twice quad_pillow 0))) 0 = 2 \<and>
    he_vertex (snd (the (flip_twice quad_pillow 0))) 7 = 3"
    by (simp add: flip_twice_def flip_edge_def on_boundary_def is_boundary_def find_prev.simps
          Let_def exec_simps setters quad_pillow_def)
  ultimately show ?thesis
    using valid_tetra valid_quad_pillow by (intro conjI) simp_all
qed

section \<open>The order of the edge records\<close>







lemma float_less_asym: "float_less a b \<Longrightarrow> \<not> float_less b a"
  by (cases a; cases b) simp_all











section \<open>The decimation loop\<close>

lemma collapse_edge_present:
  assumes "2 \<le> length (edges m)" and "collapse_edge m e = Some (r, m')"
  shows "r \<noteq> None"
  using assms
  by (auto simp: collapse_edge_def Let_def bind_eq_Some_conv split: prod.splits)

lemma simplify_round_present:
  assumes "2 \<le> length (edges (mesh s))"
  shows "simplify_round L addr junk s \<noteq> Some (Inl Bad_optional_access)"
proof
  assume bad: "simplify_round L addr junk s = Some (Inl Bad_optional_access)"
  then obtain best rest where q: "edge_queue s = best # rest"
    by (cases "edge_queue s") (simp_all add: simplify_round_def)
  from bad q obtain m' where "collapse_edge_erase (mesh s) (edge best) = Some (None, m')"
    by (auto simp: simplify_round_def Let_def bind_eq_Some_conv split: prod.splits option.splits)
  then obtain m'' where "collapse_edge (mesh s) (edge best) = Some (None, m'')"
    by (auto simp: collapse_edge_erase_def)
  with collapse_edge_present [OF assms] show False by blast
qed

lemma simplify_loop_present:
  assumes "simplify_loop L addr junk target s = Some r"
  shows "2 \<le> target \<longrightarrow> r \<noteq> Inl Bad_optional_access"
proof (rule simplify_loop.raw_induct
    [where P = "\<lambda>L addr junk target s r. 2 \<le> target \<longrightarrow> r \<noteq> Inl Bad_optional_access",
      OF _ assms], goal_cases)
  case (1 loop L addr junk target s r)
  show ?case
  proof
    assume t: "2 \<le> target"
    show "r \<noteq> Inl Bad_optional_access"
    proof (cases "target < length (edges (mesh s))")
      case False
      with 1(2) show ?thesis by auto
    next
      case True
      with 1(2) obtain x where x: "simplify_round L addr junk s = Some x"
        and rest: "(case x of Inl flt \<Rightarrow> Some (Inl flt) | Inr s' \<Rightarrow> loop L addr junk target s') = Some r"
        by (auto simp: bind_eq_Some_conv)
      show ?thesis
      proof (cases x)
        case (Inl flt)
        with x rest simplify_round_present [of s L addr junk] True t show ?thesis by auto
      next
        case (Inr s')
        with rest have "loop L addr junk target s' = Some r" by simp
        from 1(1) [OF this] t show ?thesis by simp
      qed
    qed
  qed
qed

lemma simplify_never_bad_optional_access:
  "simplify L addr junk m \<noteq> Some (Inl Bad_optional_access)"
proof
  assume bad: "simplify L addr junk m = Some (Inl Bad_optional_access)"
  then have len: "3 \<le> length (edges m)"
    by (auto simp: simplify_def split: if_splits)
  then have t: "2 \<le> (length (edges m) * 3) div 4" by simp
  from bad len obtain s0 r where
    loop: "simplify_loop L addr junk ((length (edges m) * 3) div 4) s0 = Some r"
    and r: "(case r of Inl flt \<Rightarrow> Some (Inl flt) | Inr s \<Rightarrow> Some (Inr (True, mesh s)))
           = Some (Inl Bad_optional_access)"
    by (auto simp: simplify_def Let_def bind_eq_Some_conv)
  from simplify_loop_present [OF loop] t have "r \<noteq> Inl Bad_optional_access" by simp
  with r show False
    by (cases r) auto
qed

text \<open>
  C10. The claim: in every run of \<open>simplify\<close> on a mesh of at least three edges the collapse
  of the popped edge is never refused, the loop runs without fault and it ends. The collapse
  is indeed never refused (\<open>simplify_never_bad_optional_access\<close>). But on a mesh of one
  triangle, three edges, whichever edge the queue yields, the collapse erases every edge and
  every half-edge of the mesh and hands back a vertex; the loop then walks round that vertex
  from its half-edge, which no longer exists.
\<close>

theorem simplify_collapse_leaves_dangling_halfedge:
  "valid lone_triangle \<and> length (edges lone_triangle) = 3 \<and>
   fst (the (collapse_edge_erase lone_triangle 0)) = Some 6 \<and>
   edges (snd (the (collapse_edge_erase lone_triangle 0))) = [] \<and>
   halfedges (snd (the (collapse_edge_erase lone_triangle 0))) = [] \<and>
   fst (the (collapse_edge_erase lone_triangle 1)) = Some 6 \<and>
   edges (snd (the (collapse_edge_erase lone_triangle 1))) = [] \<and>
   halfedges (snd (the (collapse_edge_erase lone_triangle 1))) = [] \<and>
   fst (the (collapse_edge_erase lone_triangle 2)) = Some 6 \<and>
   edges (snd (the (collapse_edge_erase lone_triangle 2))) = [] \<and>
   halfedges (snd (the (collapse_edge_erase lone_triangle 2))) = []"
  by (rule conjI [OF valid_lone_triangle])
     (simp add: collapse_edge_erase_def collapse_eval do_erase_def lone_triangle_def pillow_def)


end
